theory Spec2Isabelle
  imports Complex_Main
begin

section \<open>Air Instruments: gesture trigger engine and audio synthesis engine\<close>

text \<open>
  A shallow embedding of \<^verbatim>\<open>src/services/audioEngine.ts\<close> and of the physics step of
  \<^verbatim>\<open>src/App.tsx\<close>. JavaScript numbers are modelled as real numbers: every number the
  embedded code handles is a coordinate, a time or a frequency, and the properties below
  are about comparisons and bookkeeping, not about rounding. A JavaScript exception is a
  value of type \<open>error\<close>.
\<close>

subsection \<open>JavaScript values\<close>

datatype error = TypeError

text \<open>
  What a property read on the note table can yield: a number stored in the table, or a
  member that the object literal inherits from \<^verbatim>\<open>Object.prototype\<close> (a function, or for
  \<^verbatim>\<open>__proto__\<close> the prototype object itself).
\<close>

datatype jsvalue = Num real | ProtoMember string

text \<open>The property names that every object literal inherits from \<^verbatim>\<open>Object.prototype\<close>.\<close>

definition objectPrototypeKeys :: "string list" where
  "objectPrototypeKeys =
     [''constructor'', ''hasOwnProperty'', ''isPrototypeOf'', ''propertyIsEnumerable'',
      ''toLocaleString'', ''toString'', ''valueOf'', ''__proto__'',
      ''__defineGetter__'', ''__defineSetter__'', ''__lookupGetter__'', ''__lookupSetter__'']"

text \<open>JavaScript truthiness, as the operator \<^verbatim>\<open>||\<close> tests it: objects and functions are
  truthy, a number is truthy unless it is zero.\<close>

fun truthy :: "jsvalue \<Rightarrow> bool" where
  "truthy (Num r) = (r \<noteq> 0)"
| "truthy (ProtoMember k) = True"

text \<open>A restricted \<^verbatim>\<open>float\<close> argument of the Web Audio interface: a value that is not a
  number converts to NaN, which the binding rejects with a TypeError.\<close>

fun toFloat :: "jsvalue \<Rightarrow> error + real" where
  "toFloat (Num r) = Inr r"
| "toFloat (ProtoMember k) = Inl TypeError"

subsection \<open>Configuration (\<^verbatim>\<open>src/types.ts\<close>)\<close>

datatype Waveform = SINE | SQUARE | SAWTOOTH | TRIANGLE

record SynthConfig =
  waveform :: Waveform
  attack :: real
  decay :: real
  sustain :: real
  release :: real
  gain :: real
  filterFreq :: real
  delayMix :: real
  detune :: "real option"

record InstrumentState =
  inst_id :: string
  inst_name :: string
  inst_notes :: "string list"
  inst_config :: SynthConfig
  inst_description :: string
  inst_color :: string

definition SCALE_PENTATONIC_C :: "string list" where
  "SCALE_PENTATONIC_C =
     [''C4'', ''D4'', ''E4'', ''G4'', ''A4'', ''C5'', ''D5'', ''E5'', ''G5'', ''A5'', ''C6'', ''D6'']"

definition DEFAULT_CONFIG :: SynthConfig where
  "DEFAULT_CONFIG =
     \<lparr>waveform = SINE, attack = 0.005, decay = 0.1, sustain = 0.3, release = 1.5,
      gain = 0.3, filterFreq = 2000, delayMix = 0.3, detune = None\<rparr>"

text \<open>The first entry of \<^verbatim>\<open>INSTRUMENT_PRESETS\<close>, the instrument the application starts with.\<close>

definition harp :: InstrumentState where
  "harp =
     \<lparr>inst_id = ''harp'', inst_name = ''Ethereal Harp'', inst_notes = SCALE_PENTATONIC_C,
      inst_config = \<lparr>waveform = SINE, attack = 0.005, decay = 0.1, sustain = 0.3, release = 1.5,
                gain = 0.3, filterFreq = 2000, delayMix = 0.3, detune = None\<rparr>,
      inst_description = ''Pure sine waves with a touch of delay.'', inst_color = ''cyan''\<rparr>"

subsection \<open>The audio graph\<close>

text \<open>A call that schedules automation on an \<^verbatim>\<open>AudioParam\<close>; the first argument is the
  value, the second the time, as in the Web Audio interface.\<close>

datatype automation =
    SetValueAtTime real real
  | LinearRampToValueAtTime real real
  | ExponentialRampToValueAtTime real real
  | SetTargetAtTime real real real

record AudioParam =
  param_value :: real
  param_events :: "automation list"

record Compressor =
  threshold :: real
  knee :: real
  ratio :: real
  comp_attack :: real
  comp_release :: real

text \<open>One voice: the oscillator, filter and gain node that \<^verbatim>\<open>playNote\<close> creates and wires
  into the master gain.\<close>

record Voice =
  osc_type :: Waveform
  osc_frequency :: "automation list"
  osc_detune :: "automation list"
  filter_frequency :: "automation list"
  filter_Q :: real
  gain_envelope :: "automation list"
  start_time :: real
  stop_time :: real

text \<open>
  The audio context with the persistent nodes that \<^verbatim>\<open>init\<close> builds. The fields \<^verbatim>\<open>ctx\<close>,
  \<^verbatim>\<open>masterGain\<close>, \<^verbatim>\<open>compressor\<close>, \<^verbatim>\<open>delayNode\<close> and \<^verbatim>\<open>delayGain\<close> of the class are assigned
  only by \<^verbatim>\<open>init\<close>, one after the other, so they are all null or all set; the model keeps
  them in one optional record. \<open>voices\<close> lists the voices wired into the master gain, in
  the order they were created.
\<close>

record AudioGraph =
  currentTime :: real
  masterGain :: real
  compressor :: Compressor
  delayTime :: real
  delayGain :: AudioParam
  feedbackGain :: real
  voices :: "Voice list"

record AudioEngine =
  ctx :: "AudioGraph option"
  engine_config :: SynthConfig

definition newAudioEngine :: "SynthConfig \<Rightarrow> AudioEngine" where
  "newAudioEngine initialConfig = \<lparr>ctx = None, engine_config = initialConfig\<rparr>"

text \<open>\<^verbatim>\<open>init\<close>, with the reading of the audio clock as a parameter. Resuming a suspended
  context is the platform's part and is not modelled.\<close>

definition init :: "real \<Rightarrow> AudioEngine \<Rightarrow> AudioEngine" where
  "init clock e =
     (case ctx e of
        Some g \<Rightarrow> e
      | None \<Rightarrow>
          e\<lparr>ctx := Some
            \<lparr>currentTime = clock,
             masterGain = 0.6,
             compressor = \<lparr>threshold = -20, knee = 30, ratio = 12,
                           comp_attack = 0.002, comp_release = 0.25\<rparr>,
             delayTime = 0.3,
             delayGain = \<lparr>param_value = delayMix (engine_config e), param_events = []\<rparr>,
             feedbackGain = 0.4,
             voices = []\<rparr>\<rparr>)"

definition updateConfig :: "AudioEngine \<Rightarrow> SynthConfig \<Rightarrow> AudioEngine" where
  "updateConfig e newConfig =
     (let e1 = e\<lparr>engine_config := newConfig\<rparr>
      in case ctx e1 of
           Some g \<Rightarrow>
             e1\<lparr>ctx := Some (g\<lparr>delayGain := (delayGain g)
               \<lparr>param_events := param_events (delayGain g)
                    @ [SetTargetAtTime (delayMix newConfig) (currentTime g) 0.1]\<rparr>\<rparr>)\<rparr>
         | None \<Rightarrow> e1)"

subsection \<open>Note names to frequencies\<close>

definition noteMap :: "(string \<times> real) list" where
  "noteMap = [
    (''C0'', 16.35), (''C#0'', 17.32), (''Db0'', 17.32), (''D0'', 18.35), (''D#0'', 19.45), (''Eb0'', 19.45), (''E0'', 20.60), (''F0'', 21.83), (''F#0'', 23.12), (''Gb0'', 23.12), (''G0'', 24.50), (''G#0'', 25.96), (''Ab0'', 25.96), (''A0'', 27.50), (''A#0'', 29.14), (''Bb0'', 29.14), (''B0'', 30.87),
    (''C1'', 32.70), (''C#1'', 34.65), (''Db1'', 34.65), (''D1'', 36.71), (''D#1'', 38.89), (''Eb1'', 38.89), (''E1'', 41.20), (''F1'', 43.65), (''F#1'', 46.25), (''Gb1'', 46.25), (''G1'', 49.00), (''G#1'', 51.91), (''Ab1'', 51.91), (''A1'', 55.00), (''A#1'', 58.27), (''Bb1'', 58.27), (''B1'', 61.74),
    (''C2'', 65.41), (''C#2'', 69.30), (''Db2'', 69.30), (''D2'', 73.42), (''D#2'', 77.78), (''Eb2'', 77.78), (''E2'', 82.41), (''F2'', 87.31), (''F#2'', 92.50), (''Gb2'', 92.50), (''G2'', 98.00), (''G#2'', 103.83), (''Ab2'', 103.83), (''A2'', 110.00), (''A#2'', 116.54), (''Bb2'', 116.54), (''B2'', 123.47),
    (''C3'', 130.81), (''C#3'', 138.59), (''Db3'', 138.59), (''D3'', 146.83), (''D#3'', 155.56), (''Eb3'', 155.56), (''E3'', 164.81), (''F3'', 174.61), (''F#3'', 185.00), (''Gb3'', 185.00), (''G3'', 196.00), (''G#3'', 207.65), (''Ab3'', 207.65), (''A3'', 220.00), (''A#3'', 233.08), (''Bb3'', 233.08), (''B3'', 246.94),
    (''C4'', 261.63), (''C#4'', 277.18), (''Db4'', 277.18), (''D4'', 293.66), (''D#4'', 311.13), (''Eb4'', 311.13), (''E4'', 329.63), (''F4'', 349.23), (''F#4'', 369.99), (''Gb4'', 369.99), (''G4'', 392.00), (''G#4'', 415.30), (''Ab4'', 415.30), (''A4'', 440.00), (''A#4'', 466.16), (''Bb4'', 466.16), (''B4'', 493.88),
    (''C5'', 523.25), (''C#5'', 554.37), (''Db5'', 554.37), (''D5'', 587.33), (''D#5'', 622.25), (''Eb5'', 622.25), (''E5'', 659.26), (''F5'', 698.46), (''F#5'', 739.99), (''Gb5'', 739.99), (''G5'', 783.99), (''G#5'', 830.61), (''Ab5'', 830.61), (''A5'', 880.00), (''A#5'', 932.33), (''Bb5'', 932.33), (''B5'', 987.77),
    (''C6'', 1046.50), (''C#6'', 1108.73), (''Db6'', 1108.73), (''D6'', 1174.66), (''D#6'', 1244.51), (''Eb6'', 1244.51), (''E6'', 1318.51), (''F6'', 1396.91), (''F#6'', 1479.98), (''Gb6'', 1479.98), (''G6'', 1567.98), (''G#6'', 1661.22), (''Ab6'', 1661.22), (''A6'', 1760.00), (''A#6'', 1864.66), (''Bb6'', 1864.66), (''B6'', 1975.53)
  ]"

text \<open>The property read \<^verbatim>\<open>noteMap[note]\<close>: the table's own entry if there is one, else the
  member inherited from \<^verbatim>\<open>Object.prototype\<close> if the name is one of its keys, else
  \<^verbatim>\<open>undefined\<close> (\<open>None\<close>).\<close>

definition noteMapGet :: "string \<Rightarrow> jsvalue option" where
  "noteMapGet note =
     (case map_of noteMap note of
        Some f \<Rightarrow> Some (Num f)
      | None \<Rightarrow> if note \<in> set objectPrototypeKeys then Some (ProtoMember note) else None)"

text \<open>\<^verbatim>\<open>noteMap[note] || 440\<close>: the left operand if it is truthy, else 440.\<close>

definition noteToFreq :: "string \<Rightarrow> jsvalue" where
  "noteToFreq note =
     (case noteMapGet note of
        Some v \<Rightarrow> if truthy v then v else Num 440
      | None \<Rightarrow> Num 440)"

subsection \<open>Playing a note\<close>

text \<open>
  \<^verbatim>\<open>playNote\<close>. The oscillator's frequency is the first value handed to the Web Audio
  interface, so a frequency that is not a number raises there, before any node is wired.
  That is the one check of the interface that depends on the note name. Its other checks
  (a ramp target of zero, a negative time) depend on the configuration alone and pass
  for every configuration with non-negative durations, gain and sustain; they are not
  modelled.
  The request to resume a suspended context has no effect on the graph and is left out,
  and so is the \<^verbatim>\<open>onended\<close> handler, which runs after the voice's stop time.
  \<open>makeVoice\<close> is the oscillator, filter and gain node as \<^verbatim>\<open>playNote\<close> sets them up from the
  active configuration, the frequency and the audio clock's time \<open>t\<close>.
\<close>

definition makeVoice :: "SynthConfig \<Rightarrow> real \<Rightarrow> real \<Rightarrow> Voice" where
  "makeVoice c freq t =
     \<lparr>osc_type = waveform c,
      osc_frequency = [SetValueAtTime freq t],
      osc_detune =
        (case detune c of
           Some d \<Rightarrow> if d \<noteq> 0 then [SetValueAtTime d t] else []
         | None \<Rightarrow> []),
      filter_frequency = [SetValueAtTime (filterFreq c) t],
      filter_Q = 5,
      gain_envelope =
        [SetValueAtTime 0 t]
        @ (if attack c < 0.005
           then [SetValueAtTime (gain c) t]
           else [LinearRampToValueAtTime (gain c) (t + attack c)])
        @ [ExponentialRampToValueAtTime (gain c * sustain c + 0.001) (t + attack c + decay c),
           ExponentialRampToValueAtTime 0.0001 (t + attack c + decay c + release c)],
      start_time = t,
      stop_time = t + attack c + decay c + release c + 0.1\<rparr>"

definition playNote :: "AudioEngine \<Rightarrow> string \<Rightarrow> error + AudioEngine" where
  "playNote e name =
     (case ctx e of
        None \<Rightarrow> Inr e
      | Some g \<Rightarrow>
          (case toFloat (noteToFreq name) of
             Inl err \<Rightarrow> Inl err
           | Inr freq \<Rightarrow>
               Inr (e\<lparr>ctx := Some
                 (g\<lparr>voices := voices g @ [makeVoice (engine_config e) freq (currentTime g)]\<rparr>)\<rparr>)))"

text \<open>The audio clock advances by itself; \<open>atTime t e\<close> is the engine \<open>e\<close> at the moment the
  clock reads \<open>t\<close>.\<close>

definition atTime :: "real \<Rightarrow> AudioEngine \<Rightarrow> AudioEngine" where
  "atTime t e =
     (case ctx e of
        None \<Rightarrow> e
      | Some g \<Rightarrow> e\<lparr>ctx := Some (g\<lparr>currentTime := t\<rparr>)\<rparr>)"

subsection \<open>Landmarks and finger openness (\<^verbatim>\<open>src/App.tsx\<close>)\<close>

text \<open>A landmark of the hand detector; the code reads its \<^verbatim>\<open>x\<close> and \<^verbatim>\<open>y\<close> only.\<close>

record Landmark =
  lm_x :: real
  lm_y :: real

text \<open>Reading a JavaScript array: \<^verbatim>\<open>undefined\<close> (\<open>None\<close>) when the index is missing.
  Reading a property of \<^verbatim>\<open>undefined\<close> raises a TypeError.\<close>

definition arrayGet :: "'a list \<Rightarrow> nat \<Rightarrow> 'a option" where
  "arrayGet xs i = (if i < length xs then Some (xs ! i) else None)"

definition hypot :: "real \<Rightarrow> real \<Rightarrow> real" where
  "hypot a b = sqrt (a * a + b * b)"

definition isFingerOpen :: "Landmark list \<Rightarrow> nat \<Rightarrow> nat \<Rightarrow> nat \<Rightarrow> error + bool" where
  "isFingerOpen landmarks tipIdx pipIdx wristIdx =
     (case arrayGet landmarks wristIdx of
        None \<Rightarrow> Inl TypeError
      | Some wrist \<Rightarrow>
     (case arrayGet landmarks pipIdx of
        None \<Rightarrow> Inl TypeError
      | Some pip \<Rightarrow>
     (case arrayGet landmarks tipIdx of
        None \<Rightarrow> Inl TypeError
      | Some tip \<Rightarrow>
          (let distWristToPip = hypot (lm_x pip - lm_x wrist) (lm_y pip - lm_y wrist);
               distWristToTip = hypot (lm_x tip - lm_x wrist) (lm_y tip - lm_y wrist)
           in Inr (distWristToTip > distWristToPip * 0.9)))))"

subsection \<open>The physics state\<close>

record FingerTrackState =
  last_x :: real
  last_time :: real

text \<open>
  The mutable state the physics step works on: the two refs \<^verbatim>\<open>lastFingerData\<close> and
  \<^verbatim>\<open>stringDebounceRef\<close>, and the audio engine held in the component's state.
  \<^verbatim>\<open>activeStringsRef\<close>, which only the renderer reads, is left out.
\<close>

record World =
  lastFingerData :: "nat \<rightharpoonup> FingerTrackState"
  stringDebounce :: "real list"
  audioEngine :: "AudioEngine option"

text \<open>A trigger: the string index and the frame time handed to \<^verbatim>\<open>triggerString\<close>.\<close>

type_synonym trigger = "nat \<times> real"

text \<open>
  How a piece of the physics step ends: normally, or by an exception. Both carry the
  triggers whose \<^verbatim>\<open>triggerString\<close> call returned and the state as it has been mutated
  up to that point.
\<close>

datatype outcome = Completed "trigger list" World | Thrown error "trigger list" World

fun triggers :: "outcome \<Rightarrow> trigger list" where
  "triggers (Completed evs w) = evs"
| "triggers (Thrown err evs w) = evs"

fun after :: "trigger list \<Rightarrow> outcome \<Rightarrow> outcome" where
  "after evs0 (Completed evs w) = Completed (evs0 @ evs) w"
| "after evs0 (Thrown err evs w) = Thrown err (evs0 @ evs) w"

definition NUM_STRINGS :: nat where
  "NUM_STRINGS = 12"

definition stringSpacing :: real where
  "stringSpacing = 1.0 / (real NUM_STRINGS + 1)"

definition velocityThreshold :: real where
  "velocityThreshold = 0.00015"

definition debounceTime :: real where
  "debounceTime = 40"

text \<open>The note that \<^verbatim>\<open>triggerString\<close> picks: \<^verbatim>\<open>instrument.notes[index % instrument.notes.length]\<close>.
  With an empty note list the index is NaN and the read yields \<^verbatim>\<open>undefined\<close>, which the
  note table then looks up under the key \<^verbatim>\<open>undefined\<close>.\<close>

definition noteForString :: "InstrumentState \<Rightarrow> nat \<Rightarrow> string" where
  "noteForString instrument index =
     (if inst_notes instrument = [] then ''undefined''
      else inst_notes instrument ! (index mod length (inst_notes instrument)))"

definition triggerString :: "InstrumentState \<Rightarrow> nat \<Rightarrow> real \<Rightarrow> World \<Rightarrow> error + World" where
  "triggerString instrument index now w =
     (case audioEngine w of
        None \<Rightarrow> Inr w
      | Some engine \<Rightarrow>
          (case playNote engine (noteForString instrument index) of
             Inl err \<Rightarrow> Inl err
           | Inr engine' \<Rightarrow> Inr (w\<lparr>audioEngine := Some engine'\<rparr>)))"

subsection \<open>The per-finger update\<close>

definition stringX :: "nat \<Rightarrow> real" where
  "stringX s = stringSpacing * (real s + 1)"

definition crossed :: "real \<Rightarrow> real \<Rightarrow> nat \<Rightarrow> bool" where
  "crossed lastX x s =
     (let crossedLeftToRight = lastX < stringX s \<and> x \<ge> stringX s;
          crossedRightToLeft = lastX > stringX s \<and> x \<le> stringX s
      in crossedLeftToRight \<or> crossedRightToLeft)"

text \<open>\<^verbatim>\<open>now - stringDebounceRef.current[s] > debounceTime\<close>; a missing entry makes the
  difference NaN and the comparison false.\<close>

definition debounceElapsed :: "real list \<Rightarrow> nat \<Rightarrow> real \<Rightarrow> bool" where
  "debounceElapsed debounce s now =
     (case arrayGet debounce s of
        None \<Rightarrow> False
      | Some d \<Rightarrow> now - d > debounceTime)"

text \<open>The loop over the strings, as a recursion over the indices still to visit.\<close>

fun stringLoop ::
  "InstrumentState \<Rightarrow> real \<Rightarrow> real \<Rightarrow> real \<Rightarrow> real \<Rightarrow> nat list \<Rightarrow> World \<Rightarrow> outcome" where
  "stringLoop instrument lastX x y now [] w = Completed [] w"
| "stringLoop instrument lastX x y now (s # ss) w =
     (if crossed lastX x s then
        (if y > 0.1 \<and> y < 0.9 then
           (if debounceElapsed (stringDebounce w) s now then
              (case triggerString instrument s now w of
                 Inl err \<Rightarrow> Thrown err [] w
               | Inr w1 \<Rightarrow>
                   after [(s, now)]
                     (stringLoop instrument lastX x y now ss
                        (w1\<lparr>stringDebounce := (stringDebounce w1)[s := now]\<rparr>)))
            else stringLoop instrument lastX x y now ss w)
         else stringLoop instrument lastX x y now ss w)
      else stringLoop instrument lastX x y now ss w)"

definition track :: "nat \<Rightarrow> real \<Rightarrow> real \<Rightarrow> World \<Rightarrow> World" where
  "track fingerId x now w =
     w\<lparr>lastFingerData := (lastFingerData w)(fingerId \<mapsto> \<lparr>last_x = x, last_time = now\<rparr>)\<rparr>"

definition velocityOf :: "real \<Rightarrow> real \<Rightarrow> FingerTrackState \<Rightarrow> real" where
  "velocityOf x now lastData =
     (let dx = x - last_x lastData;
          dt = now - last_time lastData
      in if dt > 0 then \<bar>dx\<bar> / dt else 0)"

text \<open>The body of \<^verbatim>\<open>fingers.forEach\<close> for one finger, given as its (tip, pip) indices.\<close>

definition processFinger ::
  "InstrumentState \<Rightarrow> nat \<Rightarrow> Landmark list \<Rightarrow> real \<Rightarrow> nat \<times> nat \<Rightarrow> World \<Rightarrow> outcome" where
  "processFinger instrument handIndex landmarks now finger w =
     (case finger of (tip, pip) \<Rightarrow>
       (case isFingerOpen landmarks tip pip 0 of
          Inl err \<Rightarrow> Thrown err [] w
        | Inr isOpen \<Rightarrow>
           (case arrayGet landmarks tip of
              None \<Rightarrow> Thrown TypeError [] w
            | Some tipLandmark \<Rightarrow>
               (let x = 1.0 - lm_x tipLandmark;
                    y = lm_y tipLandmark;
                    fingerId = handIndex * 100 + tip
                in if \<not> isOpen then Completed [] (track fingerId x now w)
                   else
                    (case lastFingerData w fingerId of
                       None \<Rightarrow> Completed [] (track fingerId x now w)
                     | Some lastData \<Rightarrow>
                        (if velocityOf x now lastData > velocityThreshold then
                           (case stringLoop instrument (last_x lastData) x y now
                                   [0..<NUM_STRINGS] w of
                              Thrown err evs w' \<Rightarrow> Thrown err evs w'
                            | Completed evs w' \<Rightarrow> Completed evs (track fingerId x now w'))
                         else Completed [] (track fingerId x now w)))))))"

subsection \<open>Hands, frames and the frame loop\<close>

definition fingers :: "(nat \<times> nat) list" where
  "fingers = [(8, 6), (12, 10), (16, 14), (20, 18)]"

fun forEachFinger ::
  "InstrumentState \<Rightarrow> nat \<Rightarrow> Landmark list \<Rightarrow> real \<Rightarrow> (nat \<times> nat) list \<Rightarrow> World \<Rightarrow> outcome" where
  "forEachFinger instrument handIndex landmarks now [] w = Completed [] w"
| "forEachFinger instrument handIndex landmarks now (f # fs) w =
     (case processFinger instrument handIndex landmarks now f w of
        Thrown err evs w' \<Rightarrow> Thrown err evs w'
      | Completed evs w' \<Rightarrow>
          after evs (forEachFinger instrument handIndex landmarks now fs w'))"

fun forEachHand ::
  "InstrumentState \<Rightarrow> real \<Rightarrow> nat \<Rightarrow> Landmark list list \<Rightarrow> World \<Rightarrow> outcome" where
  "forEachHand instrument now handIndex [] w = Completed [] w"
| "forEachHand instrument now handIndex (landmarks # rest) w =
     (case forEachFinger instrument handIndex landmarks now fingers w of
        Thrown err evs w' \<Rightarrow> Thrown err evs w'
      | Completed evs w' \<Rightarrow>
          after evs (forEachHand instrument now (handIndex + 1) rest w'))"

definition processPhysics ::
  "InstrumentState \<Rightarrow> Landmark list list \<Rightarrow> real \<Rightarrow> World \<Rightarrow> outcome" where
  "processPhysics instrument landmarksArray now w =
     (case audioEngine w of
        None \<Rightarrow> Completed [] w
      | Some engine \<Rightarrow> forEachHand instrument now 0 landmarksArray w)"

text \<open>
  One run of \<^verbatim>\<open>gameLoop\<close>. \<open>running\<close> says that the video and the landmarker exist and
  the video is neither paused nor ended; \<open>result\<close> is the landmark list of the detector's
  result, \<open>None\<close> when the detector raised (the loop catches that) or was not run.
  The second component of the value says whether the loop has scheduled
  its next run: it does so in its last statement, after the physics step and the
  drawing, so an exception of the physics step leaves the loop before it.
\<close>

definition gameLoop ::
  "bool \<Rightarrow> InstrumentState \<Rightarrow> Landmark list list option \<Rightarrow> real \<Rightarrow> World \<Rightarrow> outcome \<times> bool" where
  "gameLoop running instrument result frameTime w =
     (if \<not> running then (Completed [] w, False)
      else
        (case (case result of
                 None \<Rightarrow> Completed [] w
               | Some landmarksArray \<Rightarrow> processPhysics instrument landmarksArray frameTime w) of
           Thrown err evs w' \<Rightarrow> (Thrown err evs w', False)
         | Completed evs w' \<Rightarrow> (Completed evs w', True)))"

subsection \<open>Auxiliary notions for the statements\<close>


text \<open>An instrument none of whose note names is a key of \<^verbatim>\<open>Object.prototype\<close>; all the
  presets of \<^verbatim>\<open>src/types.ts\<close> are such.\<close>

definition plainNotes :: "InstrumentState \<Rightarrow> bool" where
  "plainNotes instrument = list_all (\<lambda>n. n \<notin> set objectPrototypeKeys) (inst_notes instrument)"

text \<open>A hand of 21 landmarks for the examples: the wrist and every other landmark at
  (0.5, 0.9), the index finger's PIP joint at (0.5, 0.7) and its tip where the arguments
  say (raw, unmirrored coordinates).\<close>

definition exampleHand :: "real \<Rightarrow> real \<Rightarrow> Landmark list" where
  "exampleHand tipX tipY =
     (replicate 21 \<lparr>lm_x = 0.5, lm_y = 0.9\<rparr>)
       [6 := \<lparr>lm_x = 0.5, lm_y = 0.7\<rparr>, 8 := \<lparr>lm_x = tipX, lm_y = tipY\<rparr>]"

text \<open>The state for the examples: the index finger of hand 0 last seen at the given
  position and time, the debounce array as the application creates it (all zero), and
  the engine of the first preset after \<^verbatim>\<open>init\<close>.\<close>

definition exampleWorld :: "real \<Rightarrow> real \<Rightarrow> World" where
  "exampleWorld lastX lastTime =
     \<lparr>lastFingerData = [8 \<mapsto> \<lparr>last_x = lastX, last_time = lastTime\<rparr>],
      stringDebounce = replicate NUM_STRINGS 0,
      audioEngine = Some (init 0 (newAudioEngine (inst_config harp)))\<rparr>"

section \<open>Supporting lemmas\<close>

subsection \<open>The note table\<close>

lemma noteMap_nonzero: "list_all (\<lambda>(k, f). f \<noteq> 0) noteMap"
  by (simp add: noteMap_def)

text \<open>No key occurs twice in the table, so the first entry found for a name is its only
  entry.\<close>

lemma noteMap_distinct: "distinct (map fst noteMap)"
  by (simp add: noteMap_def)

lemma noteToFreq_in_table: "map_of noteMap name = Some f \<Longrightarrow> noteToFreq name = Num f"
  using noteMap_nonzero
  by (auto simp: noteToFreq_def noteMapGet_def list_all_iff dest!: map_of_SomeD)

lemma noteToFreq_entry: "(name, f) \<in> set noteMap \<Longrightarrow> noteToFreq name = Num f"
  by (rule noteToFreq_in_table) (simp add: noteMap_distinct)

lemma noteToFreq_unknown:
  "map_of noteMap name = None \<Longrightarrow> name \<notin> set objectPrototypeKeys \<Longrightarrow> noteToFreq name = Num 440"
  by (simp add: noteToFreq_def noteMapGet_def)

lemma noteToFreq_A4: "noteToFreq ''A4'' = Num 440"
  by (simp add: noteToFreq_def noteMapGet_def noteMap_def)

lemma noteToFreq_C4: "noteToFreq ''C4'' = Num 261.63"
  by (simp add: noteToFreq_def noteMapGet_def noteMap_def)

lemma noteToFreq_D4: "noteToFreq ''D4'' = Num 293.66"
  by (simp add: noteToFreq_def noteMapGet_def noteMap_def)

lemma map_of_noteMap_constructor: "map_of noteMap ''constructor'' = None"
  by (simp add: noteMap_def)

lemma noteToFreq_constructor: "noteToFreq ''constructor'' = ProtoMember ''constructor''"
  by (simp add: noteToFreq_def noteMapGet_def map_of_noteMap_constructor objectPrototypeKeys_def)

subsection \<open>Openness, the string loop and normal return\<close>

lemma sqrt_scale:
  fixes v :: real
  assumes nn: "0 \<le> v"
  shows "sqrt (81 / 100 * v) = sqrt v * (9 / 10)"
proof (rule real_sqrt_unique)
  have sq: "(sqrt v)\<^sup>2 = v" using nn by simp
  have "(sqrt v * (9 / 10))\<^sup>2 = (sqrt v)\<^sup>2 * (9 / 10)\<^sup>2"
    by (rule power_mult_distrib)
  also have "\<dots> = v * (81 / 100)"
    unfolding sq by (simp add: power2_eq_square)
  finally show "(sqrt v * (9 / 10))\<^sup>2 = 81 / 100 * v" by simp
  show "0 \<le> sqrt v * (9 / 10)" using nn by simp
qed

lemma hypot_gt_iff:
  "(hypot a b > hypot c d * 0.9) = (a * a + b * b > 0.81 * (c * c + d * d))"
proof -
  have "hypot c d * (9 / 10) = sqrt (81 / 100 * (c * c + d * d))"
    unfolding hypot_def by (rule sqrt_scale[symmetric]) simp
  then have "(hypot a b > hypot c d * (9 / 10)) = (a * a + b * b > 81 / 100 * (c * c + d * d))"
    by (simp only: hypot_def real_sqrt_less_iff)
  then show ?thesis by simp
qed

lemma isFingerOpen_Inr:
  "isFingerOpen landmarks tip pip 0 = Inr b \<Longrightarrow> tip < length landmarks \<and> pip < length landmarks \<and> 0 < length landmarks"
  by (auto simp: isFingerOpen_def arrayGet_def split: if_splits)



lemma triggers_after [simp]: "triggers (after evs0 out) = evs0 @ triggers out"
  by (cases out) simp_all






lemma toFloat_noteToFreq:
  "name \<notin> set objectPrototypeKeys \<Longrightarrow> \<exists>f. toFloat (noteToFreq name) = Inr f"
  by (cases "map_of noteMap name") (simp_all add: noteToFreq_def noteMapGet_def)

lemma playNote_returns:
  "name \<notin> set objectPrototypeKeys \<Longrightarrow> \<exists>e'. playNote e name = Inr e'"
  using toFloat_noteToFreq[of name]
  by (auto simp: playNote_def Let_def split: option.splits)

lemma noteForString_plain:
  "plainNotes instrument \<Longrightarrow> noteForString instrument index \<notin> set objectPrototypeKeys"
proof (cases "inst_notes instrument = []")
  case True
  then show ?thesis by (simp add: noteForString_def objectPrototypeKeys_def)
next
  case False
  assume "plainNotes instrument"
  moreover from False
  have "inst_notes instrument ! (index mod length (inst_notes instrument)) \<in> set (inst_notes instrument)"
    by simp
  ultimately show ?thesis using False
    by (auto simp: plainNotes_def noteForString_def list_all_iff)
qed

lemma triggerString_returns:
  assumes "plainNotes instrument"
  shows "\<exists>w1. triggerString instrument s now w = Inr w1"
proof (cases "audioEngine w")
  case None
  then show ?thesis by (simp add: triggerString_def)
next
  case (Some engine)
  from playNote_returns[OF noteForString_plain[OF assms]]
  obtain e' where "playNote engine (noteForString instrument s) = Inr e'" by blast
  with Some show ?thesis by (simp add: triggerString_def)
qed

lemma after_returns:
  "\<exists>evs w'. out = Completed evs w' \<Longrightarrow> \<exists>evs w'. after evs0 out = Completed evs w'"
  by auto

lemma stringLoop_returns:
  "plainNotes instrument \<Longrightarrow> \<exists>evs w'. stringLoop instrument lastX x y now ss w = Completed evs w'"
proof (induction ss arbitrary: w)
  case Nil
  then show ?case by simp
next
  case (Cons s ss)
  from triggerString_returns[OF Cons.prems] obtain w1
    where "triggerString instrument s now w = Inr w1" by blast
  with Cons.IH[OF Cons.prems] show ?case
    by (auto intro!: after_returns)
qed

lemma isFingerOpen_squares:
  "isFingerOpen landmarks tipIdx pipIdx wristIdx =
     (case arrayGet landmarks wristIdx of
        None \<Rightarrow> Inl TypeError
      | Some wrist \<Rightarrow>
     (case arrayGet landmarks pipIdx of
        None \<Rightarrow> Inl TypeError
      | Some pip \<Rightarrow>
     (case arrayGet landmarks tipIdx of
        None \<Rightarrow> Inl TypeError
      | Some tip \<Rightarrow>
          Inr ((lm_x tip - lm_x wrist) * (lm_x tip - lm_x wrist)
               + (lm_y tip - lm_y wrist) * (lm_y tip - lm_y wrist)
               > 0.81 * ((lm_x pip - lm_x wrist) * (lm_x pip - lm_x wrist)
                         + (lm_y pip - lm_y wrist) * (lm_y pip - lm_y wrist))))))"
  by (simp only: isFingerOpen_def Let_def hypot_gt_iff)

lemma upt_12: "[0..<12] = [0, 1, 2, 3, 4, 5, 6, 7, 8, 9, 10, 11::nat]"
  by (simp add: upt_rec)

subsection \<open>The per-finger update, unfolded\<close>

lemma processFinger_open:
  assumes isopen: "isFingerOpen landmarks tip pip 0 = Inr True"
    and prior: "lastFingerData w (handIndex * 100 + tip) = Some lastData"
    and fast: "velocityOf (1 - lm_x (landmarks ! tip)) now lastData > velocityThreshold"
  shows "processFinger instrument handIndex landmarks now (tip, pip) w =
           (case stringLoop instrument (last_x lastData) (1 - lm_x (landmarks ! tip))
                   (lm_y (landmarks ! tip)) now [0..<NUM_STRINGS] w of
              Thrown err evs w' \<Rightarrow> Thrown err evs w'
            | Completed evs w' \<Rightarrow>
                Completed evs (track (handIndex * 100 + tip) (1 - lm_x (landmarks ! tip)) now w'))"
proof -
  from isFingerOpen_Inr[OF isopen] have "arrayGet landmarks tip = Some (landmarks ! tip)"
    by (simp add: arrayGet_def)
  with isopen prior fast show ?thesis
    by (simp add: processFinger_def Let_def)
qed


lemma example_pluck:
  "\<exists>w'. processFinger harp 0 (exampleHand 0.8 0.5) 100 (8, 6) (exampleWorld 0.05 90)
     = Completed [(0, 100), (1, 100)] w'"
  by (simp add: processFinger_def isFingerOpen_squares exampleHand_def exampleWorld_def
      velocityOf_def velocityThreshold_def upt_12 crossed_def stringX_def
      stringSpacing_def debounceElapsed_def arrayGet_def debounceTime_def NUM_STRINGS_def
      triggerString_def noteForString_def harp_def SCALE_PENTATONIC_C_def
      playNote_def init_def newAudioEngine_def noteToFreq_C4 noteToFreq_D4 Let_def track_def)

lemma exampleHand_open: "isFingerOpen (exampleHand 0.8 0.5) 8 6 0 = Inr True"
  by (simp add: isFingerOpen_squares exampleHand_def arrayGet_def)




subsection \<open>Well-formed frames return\<close>

lemma processFinger_returns:
  assumes plain: "plainNotes instrument"
    and ok: "isFingerOpen landmarks tip pip 0 = Inr isOpen"
  shows "\<exists>evs w'. processFinger instrument handIndex landmarks now (tip, pip) w = Completed evs w'"
proof -
  from isFingerOpen_Inr[OF ok] have g: "arrayGet landmarks tip = Some (landmarks ! tip)"
    by (simp add: arrayGet_def)
  show ?thesis
  proof (cases "lastFingerData w (handIndex * 100 + tip)")
    case None
    with ok g show ?thesis by (simp add: processFinger_def Let_def)
  next
    case (Some lastData)
    from stringLoop_returns[OF plain] obtain evs w2 where
      "stringLoop instrument (last_x lastData) (1 - lm_x (landmarks ! tip))
         (lm_y (landmarks ! tip)) now [0..<NUM_STRINGS] w = Completed evs w2"
      by blast
    with Some ok g show ?thesis by (simp add: processFinger_def Let_def)
  qed
qed

lemma isFingerOpen_wellformed:
  "wristIdx < length landmarks \<Longrightarrow> pipIdx < length landmarks \<Longrightarrow> tipIdx < length landmarks \<Longrightarrow>
     \<exists>b. isFingerOpen landmarks tipIdx pipIdx wristIdx = Inr b"
  by (simp add: isFingerOpen_def arrayGet_def Let_def)

lemma forEachFinger_returns:
  assumes plain: "plainNotes instrument"
    and wf: "\<forall>(tip, pip) \<in> set fs. tip < length landmarks \<and> pip < length landmarks"
    and wrist: "0 < length landmarks"
  shows "\<exists>evs w'. forEachFinger instrument handIndex landmarks now fs w = Completed evs w'"
  using wf
proof (induction fs arbitrary: w)
  case Nil
  then show ?case by simp
next
  case (Cons f fs)
  obtain tip pip where f: "f = (tip, pip)" by (cases f)
  with Cons.prems have "tip < length landmarks" "pip < length landmarks" by auto
  from isFingerOpen_wellformed[OF wrist this(2) this(1)]
  obtain b where "isFingerOpen landmarks tip pip 0 = Inr b" by blast
  from processFinger_returns[OF plain this] obtain evs w1 where
    p: "processFinger instrument handIndex landmarks now f w = Completed evs w1"
    unfolding f by blast
  from Cons.prems have "\<forall>(tip, pip) \<in> set fs. tip < length landmarks \<and> pip < length landmarks"
    by auto
  from Cons.IH[OF this, of w1] p show ?case by (auto intro!: after_returns)
qed

lemma forEachHand_returns:
  assumes plain: "plainNotes instrument"
  shows "\<forall>landmarks \<in> set landmarksArray. 21 \<le> length landmarks \<Longrightarrow>
     \<exists>evs w'. forEachHand instrument now handIndex landmarksArray w = Completed evs w'"
proof (induction landmarksArray arbitrary: handIndex w)
  case Nil
  then show ?case by simp
next
  case (Cons landmarks rest)
  then have l: "21 \<le> length landmarks" by simp
  then have "\<forall>(tip, pip) \<in> set fingers. tip < length landmarks \<and> pip < length landmarks"
    by (simp add: fingers_def)
  moreover from l have "0 < length landmarks" by auto
  ultimately obtain evs w1 where
    p: "forEachFinger instrument handIndex landmarks now fingers w = Completed evs w1"
    using forEachFinger_returns[OF plain, of fingers landmarks handIndex now w] by blast
  from Cons.prems have "\<forall>landmarks \<in> set rest. 21 \<le> length landmarks" by simp
  from Cons.IH[OF this, of "handIndex + 1" w1] p show ?case by (auto intro!: after_returns)
qed

lemma gameLoop_wellformed:
  assumes "plainNotes instrument"
    and "\<forall>landmarks \<in> set landmarksArray. 21 \<le> length landmarks"
  shows "\<exists>evs w'. gameLoop True instrument (Some landmarksArray) frameTime w
                    = (Completed evs w', True)"
proof (cases "audioEngine w")
  case None
  then show ?thesis by (simp add: gameLoop_def processPhysics_def)
next
  case (Some engine)
  from forEachHand_returns[OF assms, of frameTime 0 w] obtain evs w' where
    "forEachHand instrument frameTime 0 landmarksArray w = Completed evs w'" by blast
  with Some show ?thesis by (simp add: gameLoop_def processPhysics_def)
qed

subsection \<open>Malformed hands\<close>

lemma error_is_TypeError: "(err :: error) = TypeError"
  by (cases err) simp

lemma processFinger_pinky_malformed:
  "length landmarks < 21 \<Longrightarrow>
     processFinger instrument handIndex landmarks now (20, 18) w = Thrown TypeError [] w"
  by (simp add: processFinger_def isFingerOpen_def arrayGet_def split: option.splits)

lemma after_Thrown:
  "\<exists>evs w'. out = Thrown TypeError evs w' \<Longrightarrow> \<exists>evs w'. after evs0 out = Thrown TypeError evs w'"
  by auto

lemma forEachFinger_malformed:
  assumes "length landmarks < 21"
  shows "\<exists>evs w'. forEachFinger instrument handIndex landmarks now fingers w = Thrown TypeError evs w'"
proof -
  have step: "\<And>f fs w. (\<And>w1. \<exists>evs w'. forEachFinger instrument handIndex landmarks now fs w1 = Thrown TypeError evs w')
     \<Longrightarrow> \<exists>evs w'. forEachFinger instrument handIndex landmarks now (f # fs) w = Thrown TypeError evs w'"
  proof -
    fix f fs w
    assume r: "\<And>w1. \<exists>evs w'. forEachFinger instrument handIndex landmarks now fs w1 = Thrown TypeError evs w'"
    show "\<exists>evs w'. forEachFinger instrument handIndex landmarks now (f # fs) w = Thrown TypeError evs w'"
    proof (cases "processFinger instrument handIndex landmarks now f w")
      case (Completed evs w1)
      with after_Thrown[OF r[of w1], of evs] show ?thesis by simp
    next
      case (Thrown err evs w1)
      then show ?thesis using error_is_TypeError[of err] by simp
    qed
  qed
  have last: "\<And>w. \<exists>evs w'. forEachFinger instrument handIndex landmarks now [(20, 18)] w = Thrown TypeError evs w'"
    by (simp add: processFinger_pinky_malformed[OF assms])
  show ?thesis
    unfolding fingers_def
    by (intro step last)
qed

lemma forEachHand_malformed:
  "\<exists>landmarks \<in> set landmarksArray. length landmarks < 21 \<Longrightarrow>
     \<exists>evs w'. forEachHand instrument now handIndex landmarksArray w = Thrown TypeError evs w'"
proof (induction landmarksArray arbitrary: handIndex w)
  case Nil
  then show ?case by simp
next
  case (Cons landmarks rest)
  show ?case
  proof (cases "forEachFinger instrument handIndex landmarks now fingers w")
    case (Thrown err evs w1)
    then show ?thesis using error_is_TypeError[of err] by simp
  next
    case (Completed evs w1)
    with forEachFinger_malformed[of landmarks instrument handIndex now w]
    have "\<not> length landmarks < 21" by auto
    with Cons.prems have "\<exists>landmarks \<in> set rest. length landmarks < 21" by auto
    from after_Thrown[OF Cons.IH[OF this, of "handIndex + 1" w1], of evs] Completed
    show ?thesis by simp
  qed
qed

subsection \<open>The engine before and after \<^verbatim>\<open>init\<close>\<close>

lemma playNote_before_init: "ctx e = None \<Longrightarrow> playNote e name = Inr e"
  by (simp add: playNote_def)

lemma init_ready:
  "ctx e = None \<Longrightarrow> \<exists>g. ctx (init clock e) = Some g \<and> currentTime g = clock \<and> voices g = []"
  by (simp add: init_def)

section \<open>The claims\<close>









text \<open>
  \<^bold>\<open>C3, in the form that holds.\<close> With 12 strings, an open finger whose tracked position
  moves from \<open>x = 0.05\<close> to \<open>x = 0.20\<close> within 10 ms at \<open>y = 0.5\<close>, all debounce timestamps
  older than the window, produces exactly two triggers, for the strings 0 and 1 (at
  \<open>1 / 13\<close> and \<open>2 / 13\<close>), in this order; they are played as \<open>notes[0]\<close> and \<open>notes[1]\<close> of
  the active instrument, and the debounce entries 0 and 1 are set to \<open>now\<close>.
\<close>

theorem two_strings_scenario:
  assumes isopen: "isFingerOpen landmarks tip pip 0 = Inr True"
    and x: "1 - lm_x (landmarks ! tip) = 0.20"
    and y: "lm_y (landmarks ! tip) = 0.5"
    and prior: "lastFingerData w (handIndex * 100 + tip) = Some \<lparr>last_x = 0.05, last_time = t0\<rparr>"
    and dt: "0 < now - t0 \<and> now - t0 \<le> 10"
    and len: "length (stringDebounce w) = NUM_STRINGS"
    and old: "\<forall>s < NUM_STRINGS. now - stringDebounce w ! s > debounceTime"
    and eng: "audioEngine w = Some engine"
    and n12: "1 < length (inst_notes instrument)"
    and p0: "playNote engine (inst_notes instrument ! 0) = Inr engine1"
    and p1: "playNote engine1 (inst_notes instrument ! 1) = Inr engine2"
  shows "processFinger instrument handIndex landmarks now (tip, pip) w =
           Completed [(0, now), (1, now)]
             (track (handIndex * 100 + tip) 0.20 now
                (w\<lparr>audioEngine := Some engine2,
                   stringDebounce := (stringDebounce w)[0 := now, 1 := now]\<rparr>))"
proof -
  have d0: "now - stringDebounce w ! 0 > debounceTime" and d1: "now - stringDebounce w ! 1 > debounceTime"
    using old by (simp_all add: NUM_STRINGS_def)
  have fast: "velocityOf (1 - lm_x (landmarks ! tip)) now \<lparr>last_x = 0.05, last_time = t0\<rparr> > velocityThreshold"
  proof -
    have "(15 / 100000) * (now - t0) < 15 / 100" using dt by simp
    then have "15 / 100000 < (15 / 100) / (now - t0)"
      using dt by (simp add: pos_less_divide_eq)
    then show ?thesis using dt by (simp add: velocityOf_def velocityThreshold_def x Let_def)
  qed
  have n: "inst_notes instrument \<noteq> []" using n12 by auto
  have m0: "0 mod length (inst_notes instrument) = 0"
    and m1: "Suc 0 mod length (inst_notes instrument) = Suc 0"
    using n12 by simp_all
  have loop: "stringLoop instrument 0.05 0.20 0.5 now [0..<NUM_STRINGS] w =
          Completed [(0, now), (1, now)]
                (w\<lparr>audioEngine := Some engine2,
                   stringDebounce := (stringDebounce w)[0 := now, 1 := now]\<rparr>)"
    using d0 d1 len eng n n12 p0 p1
    by (simp add: upt_12 crossed_def stringX_def stringSpacing_def NUM_STRINGS_def
        debounceElapsed_def arrayGet_def triggerString_def noteForString_def m0 m1)
  show ?thesis
    using processFinger_open[OF isopen prior fast, of instrument] loop
    by (simp add: x y)
qed

text \<open>The scenario of C3 on the first preset, with the engine initialised.\<close>

theorem two_strings_scenario_witness:
  "\<exists>engine2. processFinger harp 0 (exampleHand 0.8 0.5) 100 (8, 6) (exampleWorld 0.05 90) =
           Completed [(0, 100), (1, 100)]
             (track 8 0.20 100
                ((exampleWorld 0.05 90)\<lparr>audioEngine := Some engine2,
                   stringDebounce := (replicate 12 0)[0 := 100, 1 := 100]\<rparr>))"
proof -
  let ?e = "init 0 (newAudioEngine (inst_config harp))"
  have k0: "inst_notes harp ! 0 \<notin> set objectPrototypeKeys"
    and k1: "inst_notes harp ! 1 \<notin> set objectPrototypeKeys"
    by (simp_all add: harp_def SCALE_PENTATONIC_C_def objectPrototypeKeys_def)
  from playNote_returns[OF k0] obtain engine1 where
    p0: "playNote ?e (inst_notes harp ! 0) = Inr engine1" by blast
  from playNote_returns[OF k1] obtain engine2 where
    p1: "playNote engine1 (inst_notes harp ! 1) = Inr engine2" by blast
  have x: "1 - lm_x (exampleHand 0.8 0.5 ! 8) = 0.20" and y: "lm_y (exampleHand 0.8 0.5 ! 8) = 0.5"
    by (simp_all add: exampleHand_def)
  have prior: "lastFingerData (exampleWorld 0.05 90) (0 * 100 + 8) = Some \<lparr>last_x = 0.05, last_time = 90\<rparr>"
    by (simp add: exampleWorld_def)
  have dt: "(0::real) < 100 - 90 \<and> (100::real) - 90 \<le> 10" by simp
  have len: "length (stringDebounce (exampleWorld 0.05 90)) = NUM_STRINGS"
    by (simp add: exampleWorld_def)
  have old: "\<forall>s < NUM_STRINGS. 100 - stringDebounce (exampleWorld 0.05 90) ! s > debounceTime"
    by (simp add: exampleWorld_def debounceTime_def)
  have eng: "audioEngine (exampleWorld 0.05 90) = Some ?e"
    by (simp add: exampleWorld_def)
  have n12: "1 < length (inst_notes harp)"
    by (simp add: harp_def SCALE_PENTATONIC_C_def)
  show ?thesis
    using two_strings_scenario[OF exampleHand_open x y prior dt len old eng n12 p0 p1]
    by (auto simp: exampleWorld_def NUM_STRINGS_def)
qed

text \<open>
  \<^bold>\<open>C3 as worded fails:\<close> in the scenario the triggers are those of string 0 and of
  string 1, not the one of string 0 alone.
\<close>

theorem single_trigger_counterexample:
  "triggers (processFinger harp 0 (exampleHand 0.8 0.5) 100 (8, 6) (exampleWorld 0.05 90))
     = [(0, 100), (1, 100)]
   \<and> triggers (processFinger harp 0 (exampleHand 0.8 0.5) 100 (8, 6) (exampleWorld 0.05 90))
     \<noteq> [(0, 100)]"
proof -
  from example_pluck obtain w' where
    "processFinger harp 0 (exampleHand 0.8 0.5) 100 (8, 6) (exampleWorld 0.05 90)
       = Completed [(0, 100), (1, 100)] w'" by blast
  then show ?thesis by simp
qed

text \<open>
  \<^bold>\<open>C4, in the form that holds.\<close> When an audio engine is present and some hand of the
  frame has fewer than the 21 landmarks (so that an expected index is missing), the
  physics step does not skip that hand: it raises a TypeError, the exception leaves
  \<^verbatim>\<open>gameLoop\<close>, and \<^verbatim>\<open>gameLoop\<close> does not schedule the next frame. (A frame whose hands
  all have 21 landmarks is processed and the next frame scheduled, \<open>gameLoop_wellformed\<close>.)
\<close>

theorem malformed_hand_throws:
  assumes eng: "audioEngine w \<noteq> None"
    and bad: "\<exists>landmarks \<in> set landmarksArray. length landmarks < 21"
  shows "\<exists>evs w'. processPhysics instrument landmarksArray frameTime w = Thrown TypeError evs w'
                 \<and> gameLoop True instrument (Some landmarksArray) frameTime w
                     = (Thrown TypeError evs w', False)"
proof -
  from forEachHand_malformed[OF bad, of instrument frameTime 0 w] eng
  obtain evs w' where "processPhysics instrument landmarksArray frameTime w = Thrown TypeError evs w'"
    by (auto simp: processPhysics_def)
  then show ?thesis by (simp add: gameLoop_def)
qed

text \<open>A frame with a well-formed hand followed by a hand that lacks landmark 20.\<close>

theorem malformed_hand_throws_witness:
  "\<exists>evs w'. gameLoop True harp (Some [exampleHand 0.8 0.5, take 20 (exampleHand 0.8 0.5)]) 100
               (exampleWorld 0.05 90) = (Thrown TypeError evs w', False)"
proof -
  have e: "audioEngine (exampleWorld 0.05 90) \<noteq> None" by (simp add: exampleWorld_def)
  have b: "\<exists>landmarks \<in> set [exampleHand 0.8 0.5, take 20 (exampleHand 0.8 0.5)]. length landmarks < 21"
    by (simp add: exampleHand_def)
  from malformed_hand_throws[OF e b, of harp 100] show ?thesis by blast
qed

text \<open>
  \<^bold>\<open>C4 as worded fails:\<close> for a frame whose only hand has no landmarks the exception
  propagates out of \<^verbatim>\<open>gameLoop\<close> and the next frame is not scheduled.
\<close>

theorem malformed_hand_counterexample:
  "gameLoop True harp (Some [[]]) 100 (exampleWorld 0.05 90)
     = (Thrown TypeError [] (exampleWorld 0.05 90), False)"
  by (simp add: gameLoop_def processPhysics_def exampleWorld_def fingers_def
      processFinger_def isFingerOpen_def arrayGet_def)

text \<open>
  \<^bold>\<open>C5.\<close> The names of the table resolve to their table frequencies (lemmas
  \<open>noteToFreq_entry\<close>, \<open>noteToFreq_A4\<close>, \<open>noteToFreq_C4\<close>), and a name that is neither in
  the table nor a key of \<^verbatim>\<open>Object.prototype\<close> resolves to 440 (\<open>noteToFreq_unknown\<close>). The
  name \<^verbatim>\<open>constructor\<close> is not in the table, yet \<^verbatim>\<open>noteToFreq\<close> does not return 440 for it:
  the read finds the inherited member, which is truthy, so the fallback is not taken.
\<close>

theorem noteToFreq_inherited_key:
  "map_of noteMap ''constructor'' = None
   \<and> noteToFreq ''constructor'' = ProtoMember ''constructor''
   \<and> noteToFreq ''constructor'' \<noteq> Num 440"
  by (simp add: map_of_noteMap_constructor noteToFreq_constructor)

text \<open>
  \<^bold>\<open>C6.\<close> On an initialised engine, for a name whose frequency is a number, \<^verbatim>\<open>playNote\<close>
  adds one voice whose gain envelope is: value 0 at \<open>t\<close>; then, if the attack is below
  0.005 s, the configured gain set at \<open>t\<close> itself with no ramp, otherwise a linear ramp to
  the configured gain ending at \<open>t + attack\<close>; then the two exponential ramps of decay
  and release.
\<close>

theorem playNote_attack_envelope:
  assumes ready: "ctx e = Some g"
    and freq: "toFloat (noteToFreq name) = Inr f"
    and c: "c = engine_config e" and t: "t = currentTime g"
  shows "playNote e name = Inr (e\<lparr>ctx := Some (g\<lparr>voices := voices g @ [makeVoice c f t]\<rparr>)\<rparr>)
         \<and> gain_envelope (makeVoice c f t) =
               (if attack c < 0.005
                then [SetValueAtTime 0 t,
                      SetValueAtTime (gain c) t,
                      ExponentialRampToValueAtTime (gain c * sustain c + 0.001) (t + attack c + decay c),
                      ExponentialRampToValueAtTime 0.0001 (t + attack c + decay c + release c)]
                else [SetValueAtTime 0 t,
                      LinearRampToValueAtTime (gain c) (t + attack c),
                      ExponentialRampToValueAtTime (gain c * sustain c + 0.001) (t + attack c + decay c),
                      ExponentialRampToValueAtTime 0.0001 (t + attack c + decay c + release c)])"
  using ready freq c t by (simp add: playNote_def makeVoice_def)

text \<open>The default configuration with an attack of 1 ms, note A4, audio clock at 7 s.\<close>

theorem playNote_attack_envelope_witness:
  "\<exists>e' g' v. playNote (init 7 (newAudioEngine (DEFAULT_CONFIG\<lparr>attack := 0.001\<rparr>))) ''A4'' = Inr e'
      \<and> ctx e' = Some g' \<and> voices g' = [v]
      \<and> gain_envelope v =
           [SetValueAtTime 0 7, SetValueAtTime 0.3 7,
            ExponentialRampToValueAtTime 0.091 7.101, ExponentialRampToValueAtTime 0.0001 8.601]"
proof -
  let ?e = "init 7 (newAudioEngine (DEFAULT_CONFIG\<lparr>attack := 0.001\<rparr>))"
  obtain g where g: "ctx ?e = Some g" "currentTime g = 7" "voices g = []"
    using init_ready[of "newAudioEngine (DEFAULT_CONFIG\<lparr>attack := 0.001\<rparr>)" 7]
    by (auto simp: newAudioEngine_def)
  have f: "toFloat (noteToFreq ''A4'') = Inr 440" by (simp add: noteToFreq_A4)
  have c: "DEFAULT_CONFIG\<lparr>attack := 0.001\<rparr> = engine_config ?e"
    by (simp add: init_def newAudioEngine_def)
  from playNote_attack_envelope[OF g(1) f c g(2)[symmetric]] g(3)
  show ?thesis by (simp add: DEFAULT_CONFIG_def)
qed

text \<open>
  \<^bold>\<open>C7.\<close> Before \<^verbatim>\<open>init\<close>, \<^verbatim>\<open>playNote\<close> returns without effect (\<open>playNote_before_init\<close>),
  and on an initialised engine it returns for every name that is not a key of
  \<^verbatim>\<open>Object.prototype\<close> (\<open>playNote_returns\<close>). For the name \<^verbatim>\<open>constructor\<close> it raises a
  TypeError on an initialised engine: the value it takes for the frequency is not a
  number.
\<close>

theorem playNote_inherited_key_throws:
  "playNote (newAudioEngine DEFAULT_CONFIG) ''constructor'' = Inr (newAudioEngine DEFAULT_CONFIG)
   \<and> playNote (init 0 (newAudioEngine DEFAULT_CONFIG)) ''constructor'' = Inl TypeError"
  by (simp add: playNote_def init_def newAudioEngine_def noteToFreq_constructor)

text \<open>
  \<^bold>\<open>C9.\<close> \<^verbatim>\<open>updateConfig\<close> replaces the stored configuration. On an initialised engine it
  appends to the delay-mix gain one \<^verbatim>\<open>setTargetAtTime\<close> towards the new delay mix, at the
  current time with time constant 0.1, and leaves the master gain, the compressor, the
  delay time, the feedback gain and the voices already created as they are; a voice
  created by a following \<^verbatim>\<open>playNote\<close>, at whatever time \<open>t\<close> the clock then reads, is built
  from the new configuration and is appended to the unchanged earlier voices. Before
  \<^verbatim>\<open>init\<close> there is no graph and none is created.
\<close>

theorem updateConfig_frame:
  "engine_config (updateConfig e newConfig) = newConfig
   \<and> (case ctx e of
        None \<Rightarrow> ctx (updateConfig e newConfig) = None
      | Some g \<Rightarrow>
          (\<exists>g'. ctx (updateConfig e newConfig) = Some g'
             \<and> param_events (delayGain g') =
                 param_events (delayGain g) @ [SetTargetAtTime (delayMix newConfig) (currentTime g) 0.1]
             \<and> param_value (delayGain g') = param_value (delayGain g)
             \<and> masterGain g' = masterGain g
             \<and> compressor g' = compressor g
             \<and> delayTime g' = delayTime g
             \<and> feedbackGain g' = feedbackGain g
             \<and> currentTime g' = currentTime g
             \<and> voices g' = voices g
             \<and> (\<forall>t name e2. playNote (atTime t (updateConfig e newConfig)) name = Inr e2 \<longrightarrow>
                   (\<exists>g2 f. ctx e2 = Some g2
                      \<and> voices g2 = voices g @ [makeVoice newConfig f t]
                      \<and> delayGain g2 = delayGain g' \<and> masterGain g2 = masterGain g
                      \<and> compressor g2 = compressor g \<and> delayTime g2 = delayTime g
                      \<and> feedbackGain g2 = feedbackGain g))))"
  by (auto simp: updateConfig_def playNote_def atTime_def Let_def split: option.splits sum.splits)

text \<open>The default engine after \<^verbatim>\<open>init\<close>, updated to a square wave with delay mix 0.8.\<close>

theorem updateConfig_frame_witness:
  "\<exists>g'. ctx (updateConfig (init 0 (newAudioEngine DEFAULT_CONFIG))
                (DEFAULT_CONFIG\<lparr>delayMix := 0.8, waveform := SQUARE\<rparr>)) = Some g'
      \<and> param_events (delayGain g') = [SetTargetAtTime 0.8 0 0.1]
      \<and> masterGain g' = 0.6 \<and> delayTime g' = 0.3 \<and> feedbackGain g' = 0.4 \<and> voices g' = []
      \<and> (\<exists>e2 g2. playNote (atTime 2 (updateConfig (init 0 (newAudioEngine DEFAULT_CONFIG))
                (DEFAULT_CONFIG\<lparr>delayMix := 0.8, waveform := SQUARE\<rparr>))) ''A4'' = Inr e2
            \<and> ctx e2 = Some g2 \<and> map osc_type (voices g2) = [SQUARE])"
proof -
  let ?e = "init 0 (newAudioEngine DEFAULT_CONFIG)"
  let ?c = "DEFAULT_CONFIG\<lparr>delayMix := 0.8, waveform := SQUARE\<rparr>"
  have g: "ctx ?e = Some \<lparr>currentTime = 0, masterGain = 0.6,
             compressor = \<lparr>threshold = -20, knee = 30, ratio = 12,
                           comp_attack = 0.002, comp_release = 0.25\<rparr>,
             delayTime = 0.3,
             delayGain = \<lparr>param_value = 0.3, param_events = []\<rparr>,
             feedbackGain = 0.4, voices = []\<rparr>"
    by (simp add: init_def newAudioEngine_def DEFAULT_CONFIG_def)
  have "\<exists>e2. playNote (atTime 2 (updateConfig ?e ?c)) ''A4'' = Inr e2"
    by (rule playNote_returns) (simp add: objectPrototypeKeys_def)
  then obtain e2 where p: "playNote (atTime 2 (updateConfig ?e ?c)) ''A4'' = Inr e2" by blast
  from updateConfig_frame[of ?e ?c] p
  show ?thesis
    unfolding g by (fastforce simp: DEFAULT_CONFIG_def makeVoice_def)
qed

end
